theory Spec2Isabelle
  imports Main "HOL-Library.Word"
begin

unbundle bit_operations_syntax

section \<open>The objective-function interface of include/xgboost/objective.h\<close>

text \<open>
  The header declares the abstract class \<open>ObjFunction\<close>: four pure virtual methods
  (\<open>Configure\<close>, \<open>GetGradient\<close>, \<open>DefaultEvalMetric\<close>, \<open>Task\<close>), five virtual methods
  with a body in the base class (\<open>PredTransform\<close>, \<open>EvalTransform\<close>, \<open>ProbToMargin\<close>,
  \<open>Targets\<close>, \<open>UpdateTreeLeaf\<close>), the static factory \<open>Create\<close> (declared only) and the
  registration macro.
\<close>

subsection \<open>Values that the interface moves around\<close>

text \<open>
  \<open>bst_float\<close> is a C++ \<open>float\<close>. The bodies of the header never compute on a float:
  they copy it. A float is therefore embedded as its 32-bit pattern, and equality of
  two floats below means that they are the same pattern.
  \<open>bst_node_t\<close> is a 32-bit integer, and a \<open>HostDeviceVector\<close> is embedded as the list
  of its elements.
\<close>

type_synonym bst_float = "32 word"
type_synonym bst_node_t = "32 word"
type_synonym 'a HostDeviceVector = "'a list"

text \<open>
  \<open>LOG(FATAL)\<close> ends the call with an error that carries the logged message. The two
  other errors belong to the registry, whose code is not in the header.
\<close>

datatype error =
    Fatal string
  | NoSuchObjective string "string list"
  | AlreadyRegistered string

text \<open>
  Modelled from the spec: \<open>MetaInfo\<close> and its label tensor are declared in
  \<open>xgboost/data.h\<close>, which the header only includes. The label matrix is an
  \<open>N \<times> T\<close> matrix (\<open>T\<close> the number of targets) stored flat; \<open>Shape t 0\<close> is its
  number of rows and \<open>Shape t 1\<close> its number of columns. The extents are unsigned
  (\<open>size_t\<close>) and only compared, so they are natural numbers here. A matrix has
  the axes 0 and 1 only, and the header reads \<open>Shape(1)\<close> alone. The per-example
  weights complete the record.
\<close>

record Tensor =
  entries :: "bst_float list"
  extents :: "nat \<times> nat"

definition Shape :: "Tensor \<Rightarrow> nat \<Rightarrow> nat" where
  "Shape t i = (if i = 0 then fst (extents t) else snd (extents t))"

record MetaInfo =
  labels :: Tensor
  weights :: "bst_float list"

text \<open>
  Modelled from the spec: \<open>RegTree\<close> is only forward-declared in the header
  (\<open>class RegTree;\<close>). A tree is the array of its nodes; a node is a leaf holding a
  value or a split holding a threshold and the indices of its two children. The
  topology of a tree is its node count, its split thresholds and its child pointers.
\<close>

datatype Node =
    Leaf bst_float
  | Split bst_float nat nat

type_synonym RegTree = "Node list"

definition node_count :: "RegTree \<Rightarrow> nat" where
  "node_count t = length t"

definition split_thresholds :: "RegTree \<Rightarrow> bst_float option list" where
  "split_thresholds t = map (\<lambda>n. case n of Leaf v \<Rightarrow> None | Split c l r \<Rightarrow> Some c) t"

definition child_pointers :: "RegTree \<Rightarrow> (nat \<times> nat) option list" where
  "child_pointers t = map (\<lambda>n. case n of Leaf v \<Rightarrow> None | Split c l r \<Rightarrow> Some (l, r)) t"

definition leaf_values :: "RegTree \<Rightarrow> bst_float option list" where
  "leaf_values t = map (\<lambda>n. case n of Leaf v \<Rightarrow> Some v | Split c l r \<Rightarrow> None) t"

subsection \<open>The class and its virtual methods\<close>

text \<open>
  An object of a class derived from \<open>ObjFunction\<close> is embedded as a record:
  \<^item> \<open>members\<close> holds the data members of the derived class (their type \<open>'s\<close> is a
    parameter);
  \<^item> \<open>ctx\<close> is the protected member \<open>ctx_\<close>, a pointer to the generic parameters
    (an address, \<open>None\<close> while it is not set);
  \<^item> \<open>Configure_body\<close> is the body the derived class gives to the pure virtual
    \<open>Configure\<close>;
  \<^item> for each virtual method with a body in the base class, an optional override:
    \<open>None\<close> means that the derived class inherits the body of \<open>ObjFunction\<close>.
    An override of \<open>UpdateTreeLeaf\<close> is given by the function that recomputes the
    value of one leaf from the rows assigned to it (see \<open>write_leaves\<close> below).
  A \<open>const\<close> method reads the members; a method that is not \<open>const\<close> also returns them.
  A buffer that a method updates through a pointer is passed in and returned. Every
  body may end in \<open>LOG(FATAL)\<close>, hence the sum types.
  The pure virtual methods \<open>GetGradient\<close>, \<open>DefaultEvalMetric\<close> and \<open>Task\<close> have no
  body in the header and no caller in it; they are not embedded.
\<close>

record 's ObjFunction =
  members :: 's
  ctx :: "nat option"
  Configure_body :: "'s \<Rightarrow> (string \<times> string) list \<Rightarrow> error + 's"
  PredTransform_override ::
    "('s \<Rightarrow> bst_float HostDeviceVector \<Rightarrow> error + bst_float HostDeviceVector) option"
  EvalTransform_override ::
    "('s \<Rightarrow> bst_float HostDeviceVector \<Rightarrow> error + bst_float HostDeviceVector \<times> 's) option"
  ProbToMargin_override :: "('s \<Rightarrow> bst_float \<Rightarrow> error + bst_float) option"
  Targets_override :: "('s \<Rightarrow> MetaInfo \<Rightarrow> error + 32 word) option"
  UpdateTreeLeaf_override ::
    "('s \<Rightarrow> MetaInfo \<Rightarrow> bst_float HostDeviceVector \<Rightarrow> nat list \<Rightarrow> error + bst_float) option"

text \<open>\<open>Configure\<close> is pure virtual: the call always runs the derived body.\<close>

definition Configure ::
  "'s ObjFunction \<Rightarrow> (string \<times> string) list \<Rightarrow> error + 's ObjFunction" where
  "Configure this args =
     (case Configure_body this (members this) args of
        Inl e \<Rightarrow> Inl e
      | Inr s \<Rightarrow> Inr (this\<lparr>members := s\<rparr>))"

text \<open>
  \<open>virtual uint32_t Targets(MetaInfo const& info) const\<close>: the base body, then the
  virtual call.
\<close>

definition ObjFunction_Targets :: "'s ObjFunction \<Rightarrow> MetaInfo \<Rightarrow> error + 32 word" where
  "ObjFunction_Targets this info =
     (if 1 < Shape (labels info) 1
      then Inl (Fatal ''multioutput is not supported by current objective function'')
      else Inr 1)"

definition Targets :: "'s ObjFunction \<Rightarrow> MetaInfo \<Rightarrow> error + 32 word" where
  "Targets this info =
     (case Targets_override this of
        None \<Rightarrow> ObjFunction_Targets this info
      | Some f \<Rightarrow> f (members this) info)"

text \<open>
  A call that ends in \<open>LOG(FATAL)\<close> skips the statements after it: sequencing of two
  calls passes the first error on.
\<close>

definition and_then :: "error + 'a \<Rightarrow> ('a \<Rightarrow> error + 'b) \<Rightarrow> error + 'b" where
  "and_then r f = (case r of Inl e \<Rightarrow> Inl e | Inr x \<Rightarrow> f x)"

text \<open>
  \<open>virtual void PredTransform(HostDeviceVector<bst_float>*) const {}\<close>: the base body
  is empty, so the buffer behind the pointer is what it was.
\<close>

definition ObjFunction_PredTransform ::
  "'s ObjFunction \<Rightarrow> bst_float HostDeviceVector \<Rightarrow> error + bst_float HostDeviceVector" where
  "ObjFunction_PredTransform this io_preds = Inr io_preds"

definition PredTransform ::
  "'s ObjFunction \<Rightarrow> bst_float HostDeviceVector \<Rightarrow> error + bst_float HostDeviceVector" where
  "PredTransform this io_preds =
     (case PredTransform_override this of
        None \<Rightarrow> ObjFunction_PredTransform this io_preds
      | Some f \<Rightarrow> f (members this) io_preds)"

text \<open>
  \<open>virtual void EvalTransform(HostDeviceVector<bst_float> *io_preds)
     { this->PredTransform(io_preds); }\<close>:
  the base body makes a virtual call of \<open>PredTransform\<close> on the same object. The method
  is not \<open>const\<close>, so the result pairs the buffer with the object after the call.
\<close>

definition ObjFunction_EvalTransform ::
  "'s ObjFunction \<Rightarrow> bst_float HostDeviceVector
     \<Rightarrow> error + bst_float HostDeviceVector \<times> 's ObjFunction" where
  "ObjFunction_EvalTransform this io_preds =
     and_then (PredTransform this io_preds) (\<lambda>out. Inr (out, this))"

definition EvalTransform ::
  "'s ObjFunction \<Rightarrow> bst_float HostDeviceVector
     \<Rightarrow> error + bst_float HostDeviceVector \<times> 's ObjFunction" where
  "EvalTransform this io_preds =
     (case EvalTransform_override this of
        None \<Rightarrow> ObjFunction_EvalTransform this io_preds
      | Some f \<Rightarrow>
          and_then (f (members this) io_preds)
            (\<lambda>(out, s). Inr (out, this\<lparr>members := s\<rparr>)))"

text \<open>
  \<open>virtual bst_float ProbToMargin(bst_float base_score) const { return base_score; }\<close>
\<close>

definition ObjFunction_ProbToMargin :: "'s ObjFunction \<Rightarrow> bst_float \<Rightarrow> error + bst_float" where
  "ObjFunction_ProbToMargin this base_score = Inr base_score"

definition ProbToMargin :: "'s ObjFunction \<Rightarrow> bst_float \<Rightarrow> error + bst_float" where
  "ProbToMargin this base_score =
     (case ProbToMargin_override this of
        None \<Rightarrow> ObjFunction_ProbToMargin this base_score
      | Some f \<Rightarrow> f (members this) base_score)"


text \<open>
  Modelled from the spec: no overriding body of \<open>UpdateTreeLeaf\<close> is in the header;
  the overrides belong to the concrete objectives. The spec: the leaf assignment gives,
  for each example, the leaf of the tree the example fell into; an override recomputes
  each leaf's value from the examples assigned to that leaf and writes the corrected
  value into the tree's leaf slots only; a leaf with zero assigned examples keeps its
  value. \<open>assigned position nidx\<close> lists the rows assigned to node \<open>nidx\<close>, and
  \<open>write_leaves\<close> walks the node array from index \<open>nidx\<close> on.
\<close>

definition assigned :: "bst_node_t HostDeviceVector \<Rightarrow> nat \<Rightarrow> nat list" where
  "assigned position nidx =
     filter (\<lambda>row. sint (position ! row) = int nidx) [0..<length position]"

fun write_leaves ::
  "(nat list \<Rightarrow> error + bst_float) \<Rightarrow> bst_node_t HostDeviceVector \<Rightarrow> nat \<Rightarrow> Node list
     \<Rightarrow> error + Node list" where
  "write_leaves recompute position nidx [] = Inr []"
| "write_leaves recompute position nidx (Split c l r # rest) =
     and_then (write_leaves recompute position (Suc nidx) rest)
       (\<lambda>rest'. Inr (Split c l r # rest'))"
| "write_leaves recompute position nidx (Leaf v # rest) =
     (if assigned position nidx = []
      then and_then (write_leaves recompute position (Suc nidx) rest)
             (\<lambda>rest'. Inr (Leaf v # rest'))
      else and_then (recompute (assigned position nidx))
             (\<lambda>v'. and_then (write_leaves recompute position (Suc nidx) rest)
                (\<lambda>rest'. Inr (Leaf v' # rest'))))"

text \<open>
  \<open>virtual void UpdateTreeLeaf(HostDeviceVector<bst_node_t> const& position,
     MetaInfo const& info, HostDeviceVector<float> const& prediction,
     RegTree* p_tree) const {}\<close>:
  the base body is empty, so the tree behind \<open>p_tree\<close> is what it was.
\<close>

definition ObjFunction_UpdateTreeLeaf ::
  "'s ObjFunction \<Rightarrow> bst_node_t HostDeviceVector \<Rightarrow> MetaInfo \<Rightarrow> bst_float HostDeviceVector
     \<Rightarrow> RegTree \<Rightarrow> error + RegTree" where
  "ObjFunction_UpdateTreeLeaf this position info prediction p_tree = Inr p_tree"

definition UpdateTreeLeaf ::
  "'s ObjFunction \<Rightarrow> bst_node_t HostDeviceVector \<Rightarrow> MetaInfo \<Rightarrow> bst_float HostDeviceVector
     \<Rightarrow> RegTree \<Rightarrow> error + RegTree" where
  "UpdateTreeLeaf this position info prediction p_tree =
     (case UpdateTreeLeaf_override this of
        None \<Rightarrow> ObjFunction_UpdateTreeLeaf this position info prediction p_tree
      | Some recompute \<Rightarrow>
          write_leaves (recompute (members this) info prediction) position 0 p_tree)"

subsection \<open>The registry and the factory\<close>

text \<open>
  \<open>struct ObjFunctionReg\<close> is a registry entry whose body is a
  \<open>std::function<ObjFunction* ()>\<close>: a factory that builds a new objective. The entry
  carries the name it is registered under.
\<close>

record 's ObjFunctionReg =
  reg_name :: string
  reg_body :: "unit \<Rightarrow> 's ObjFunction"

text \<open>
  Modelled from the spec: the registry itself (\<open>dmlc::Registry\<close>) is not in the
  header. The spec: the registry is a name-to-factory lookup, populated at start-up,
  whose known names can be listed. It is the list of its entries in registration
  order; \<open>Find\<close> returns the entry registered under a name.
\<close>

type_synonym 's Registry = "'s ObjFunctionReg list"

definition ListNames :: "'s Registry \<Rightarrow> string list" where
  "ListNames reg = map reg_name reg"

definition Find :: "'s Registry \<Rightarrow> string \<Rightarrow> 's ObjFunctionReg option" where
  "Find reg n = find (\<lambda>e. reg_name e = n) reg"

text \<open>
  Modelled from the spec: the macro \<open>XGBOOST_REGISTER_OBJECTIVE\<close> forwards to
  \<open>dmlc::Registry<ObjFunctionReg>::Get()->__REGISTER__(Name)\<close>, whose body is in
  \<open>dmlc/registry.h\<close> and not in the header. The spec: \<open>Register(name, factory)\<close> fails,
  at registration time, if \<open>name\<close> is already registered; otherwise the registry
  maps \<open>name\<close> to \<open>factory\<close>.
\<close>

definition Register ::
  "'s Registry \<Rightarrow> string \<Rightarrow> (unit \<Rightarrow> 's ObjFunction) \<Rightarrow> error + 's Registry" where
  "Register reg n factory =
     (if n \<in> set (ListNames reg) then Inl (AlreadyRegistered n)
      else Inr (reg @ [\<lparr>reg_name = n, reg_body = factory\<rparr>]))"

text \<open>
  Modelled from the spec: \<open>ObjFunction::Create\<close> is declared in the header and defined
  elsewhere. The spec: \<open>Create(name, context)\<close> looks up \<open>name\<close>; it fails with a "no
  such objective" error, listing the known names, if the name is not found; otherwise
  it returns a handle to a new instance, bound to the context, owned by the caller and
  unconfigured. The instances live in a heap: the list of the objects allocated so
  far, the handle of an object being its index. Allocation appends.
\<close>

type_synonym 's Heap = "'s ObjFunction list"

definition Create ::
  "'s Registry \<Rightarrow> string \<Rightarrow> nat \<Rightarrow> 's Heap \<Rightarrow> error + nat \<times> 's Heap" where
  "Create reg n tparam heap =
     (case Find reg n of
        None \<Rightarrow> Inl (NoSuchObjective n (ListNames reg))
      | Some e \<Rightarrow> Inr (length heap, heap @ [(reg_body e ())\<lparr>ctx := Some tparam\<rparr>]))"

text \<open>
  Modelled from the spec: the caller configures an instance through its handle,
  \<open>p->Configure(args)\<close>, which replaces the object behind the handle by the
  configured one. A handle that is not the address of an object has no defined
  behaviour in C++: the model answers \<open>None\<close> there.
\<close>

definition ConfigureAt ::
  "'s Heap \<Rightarrow> nat \<Rightarrow> (string \<times> string) list \<Rightarrow> (error + 's Heap) option" where
  "ConfigureAt heap p args =
     (if p < length heap
      then Some (and_then (Configure (heap ! p) args) (\<lambda>obj. Inr (heap[p := obj])))
      else None)"

subsection \<open>Objectives and a registry to run the model on\<close>

text \<open>
  An objective that implements \<open>Configure\<close> by recording the arguments it is given and
  inherits every optional method; the same objective with \<open>PredTransform\<close> overridden
  by negation (the sign bit of each float is flipped); and the registry of the
  header's example, \<open>XGBOOST_REGISTER_OBJECTIVE(LinearRegression, "reg:squarederror")\<close>.
\<close>

definition plain_objective :: "(string \<times> string) list ObjFunction" where
  "plain_objective =
     \<lparr>members = [], ctx = None,
      Configure_body = (\<lambda>s args. Inr (s @ args)),
      PredTransform_override = None, EvalTransform_override = None,
      ProbToMargin_override = None, Targets_override = None,
      UpdateTreeLeaf_override = None\<rparr>"

definition negate :: "bst_float \<Rightarrow> bst_float" where
  "negate x = x XOR 0x80000000"

definition negating_objective :: "(string \<times> string) list ObjFunction" where
  "negating_objective =
     plain_objective\<lparr>PredTransform_override := Some (\<lambda>s io_preds. Inr (map negate io_preds))\<rparr>"

definition example_registry :: "(string \<times> string) list Registry" where
  "example_registry = [\<lparr>reg_name = ''reg:squarederror'', reg_body = (\<lambda>u. plain_objective)\<rparr>]"

text \<open>
  Inputs: label matrices with one column, three columns and no column at all; an
  objective that overrides \<open>Targets\<close> to accept any number of columns; and a tree
  made of one split and two leaves.
\<close>

definition one_column :: MetaInfo where
  "one_column =
     \<lparr>labels = \<lparr>entries = [0x3F800000, 0x40000000], extents = (2, 1)\<rparr>, weights = []\<rparr>"

definition three_columns :: MetaInfo where
  "three_columns =
     \<lparr>labels = \<lparr>entries = [0, 0, 0, 0, 0, 0], extents = (2, 3)\<rparr>, weights = []\<rparr>"

definition no_labels :: MetaInfo where
  "no_labels = \<lparr>labels = \<lparr>entries = [], extents = (0, 0)\<rparr>, weights = []\<rparr>"

definition multi_target_objective :: "(string \<times> string) list ObjFunction" where
  "multi_target_objective =
     plain_objective\<lparr>Targets_override :=
       Some (\<lambda>s info. Inr (word_of_nat (max 1 (Shape (labels info) 1))))\<rparr>"

definition stump :: RegTree where
  "stump = [Split 0x3F000000 1 2, Leaf 0x3F800000, Leaf 0xBF800000]"

text \<open>
  An objective that overrides \<open>UpdateTreeLeaf\<close>: the value of a leaf becomes the
  label of the last row assigned to it.
\<close>

definition last_label_objective :: "(string \<times> string) list ObjFunction" where
  "last_label_objective =
     plain_objective\<lparr>UpdateTreeLeaf_override :=
       Some (\<lambda>s info prediction rows.
               if rows \<noteq> [] \<and> last rows < length (entries (labels info))
               then Inr (entries (labels info) ! last rows)
               else Inl (Fatal ''no label for the leaf''))\<rparr>"

section \<open>Properties of the base-class bodies\<close>

lemma plain_objective_inherits:
  "PredTransform_override plain_objective = None"
  "EvalTransform_override plain_objective = None"
  "ProbToMargin_override plain_objective = None"
  "Targets_override plain_objective = None"
  "UpdateTreeLeaf_override plain_objective = None"
  by (simp_all add: plain_objective_def)

lemma negating_objective_overrides:
  "PredTransform_override negating_objective = Some (\<lambda>s io_preds. Inr (map negate io_preds))"
  "EvalTransform_override negating_objective = None"
  by (simp_all add: negating_objective_def plain_objective_def)

lemma multi_target_objective_overrides:
  "Targets_override multi_target_objective =
     Some (\<lambda>s info. Inr (word_of_nat (max 1 (Shape (labels info) 1))))"
  by (simp add: multi_target_objective_def)

lemma columns:
  "Shape (labels one_column) 1 = 1"
  "Shape (labels three_columns) 1 = 3"
  "Shape (labels no_labels) 1 = 0"
  by (simp_all add: Shape_def one_column_def three_columns_def no_labels_def)

lemma map_sum_fst_and_then:
  "map_sum id fst (and_then r (\<lambda>out. Inr (out, x))) = r"
  by (cases r) (simp_all add: and_then_def)

subsection \<open>Targets\<close>

text \<open>
  C1. For an objective that inherits \<open>Targets\<close>, the call returns 1 when the label
  matrix of the \<open>MetaInfo\<close> has at most one column, and ends in the fatal error
  "multioutput is not supported by current objective function" when it has more than
  one. An objective that overrides \<open>Targets\<close> gets the result of its own body instead.
\<close>

theorem Targets_default:
  "(Targets_override this = None \<longrightarrow>
      (Shape (labels info) 1 \<le> 1 \<longrightarrow> Targets this info = Inr 1) \<and>
      (1 < Shape (labels info) 1 \<longrightarrow>
         Targets this info =
           Inl (Fatal ''multioutput is not supported by current objective function''))) \<and>
   (\<forall>f. Targets_override this = Some f \<longrightarrow> Targets this info = f (members this) info)"
  by (simp add: Targets_def ObjFunction_Targets_def)

theorem Targets_default_witness:
  "Targets_override plain_objective = None \<and>
   Shape (labels one_column) 1 \<le> 1 \<and> Targets plain_objective one_column = Inr 1 \<and>
   1 < Shape (labels three_columns) 1 \<and>
   Targets plain_objective three_columns =
     Inl (Fatal ''multioutput is not supported by current objective function'') \<and>
   Targets_override multi_target_objective \<noteq> None \<and>
   Targets multi_target_objective three_columns = Inr 3"
proof -
  have inherit: "Targets_override plain_objective = None"
    by (rule plain_objective_inherits)
  have one: "Shape (labels one_column) 1 \<le> 1"
    and three: "1 < Shape (labels three_columns) 1"
    unfolding columns by simp_all
  from Targets_default [of plain_objective one_column] inherit one
  have r1: "Targets plain_objective one_column = Inr 1"
    by blast
  from Targets_default [of plain_objective three_columns] inherit three
  have r3: "Targets plain_objective three_columns =
      Inl (Fatal ''multioutput is not supported by current objective function'')"
    by blast
  from Targets_default [of multi_target_objective three_columns]
    multi_target_objective_overrides
  have "Targets multi_target_objective three_columns =
      Inr (word_of_nat (max 1 (Shape (labels three_columns) 1)))"
    by blast
  then have r: "Targets multi_target_objective three_columns = Inr 3"
    unfolding columns by simp
  have "Targets_override multi_target_objective \<noteq> None"
    by (simp add: multi_target_objective_overrides)
  with inherit one three r1 r3 r show ?thesis
    by blast
qed

text \<open>
  C10. For an objective that inherits \<open>Targets\<close>, a label matrix with zero columns
  (for instance no labels at all) gives 1 and no error: the fatal branch needs
  strictly more than one column.
\<close>

theorem Targets_zero_columns:
  "Targets_override this = None \<Longrightarrow> Shape (labels info) 1 = 0 \<Longrightarrow> Targets this info = Inr 1"
  by (simp add: Targets_def ObjFunction_Targets_def)

theorem Targets_zero_columns_witness:
  "Targets_override plain_objective = None \<and> Shape (labels no_labels) 1 = 0 \<and>
   Targets plain_objective no_labels = Inr 1"
  using Targets_zero_columns [of plain_objective no_labels]
    plain_objective_inherits(4) columns(3)
  by blast

subsection \<open>EvalTransform\<close>

text \<open>
  C2. For an objective that inherits \<open>EvalTransform\<close>, and for every predictions
  buffer, the buffer (or the error) that \<open>EvalTransform\<close> produces is the one that
  \<open>PredTransform\<close> produces on the same buffer, and the object is left as it was. In
  particular, when the objective overrides \<open>PredTransform\<close> only, evaluation applies
  that override.
\<close>

theorem EvalTransform_delegates:
  "EvalTransform_override this = None \<longrightarrow>
     map_sum id fst (EvalTransform this io_preds) = PredTransform this io_preds \<and>
     (\<forall>out this'. EvalTransform this io_preds = Inr (out, this') \<longrightarrow> this' = this) \<and>
     (\<forall>f. PredTransform_override this = Some f \<longrightarrow>
        map_sum id fst (EvalTransform this io_preds) = f (members this) io_preds)"
proof (intro impI conjI allI)
  assume inherit: "EvalTransform_override this = None"
  then have body: "EvalTransform this io_preds =
      and_then (PredTransform this io_preds) (\<lambda>out. Inr (out, this))"
    by (simp add: EvalTransform_def ObjFunction_EvalTransform_def)
  then show same: "map_sum id fst (EvalTransform this io_preds) = PredTransform this io_preds"
    by (simp add: map_sum_fst_and_then)
  {
    fix out this'
    assume "EvalTransform this io_preds = Inr (out, this')"
    with body show "this' = this"
      by (cases "PredTransform this io_preds") (simp_all add: and_then_def)
  }
  {
    fix f
    assume "PredTransform_override this = Some f"
    then have "PredTransform this io_preds = f (members this) io_preds"
      by (simp add: PredTransform_def)
    with same show "map_sum id fst (EvalTransform this io_preds) = f (members this) io_preds"
      by simp
  }
qed

theorem EvalTransform_delegates_witness:
  "EvalTransform_override negating_objective = None \<and>
   PredTransform_override negating_objective \<noteq> None \<and>
   PredTransform negating_objective [0x3F000000, 0xBF800000] = Inr [0xBF000000, 0x3F800000] \<and>
   EvalTransform negating_objective [0x3F000000, 0xBF800000] =
     Inr ([0xBF000000, 0x3F800000], negating_objective)"
proof -
  let ?io = "[0x3F000000, 0xBF800000] :: bst_float list"
  have inherit: "EvalTransform_override negating_objective = None"
    by (rule negating_objective_overrides)
  have override: "PredTransform_override negating_objective \<noteq> None"
    by (simp add: negating_objective_overrides)
  have pred: "PredTransform negating_objective ?io = Inr [0xBF000000, 0x3F800000]"
    by (simp add: PredTransform_def negating_objective_overrides negate_def)
  from EvalTransform_delegates [of negating_objective ?io] inherit
  have buf: "map_sum id fst (EvalTransform negating_objective ?io) =
      PredTransform negating_objective ?io"
    and obj: "\<forall>out this'. EvalTransform negating_objective ?io = Inr (out, this') \<longrightarrow>
      this' = negating_objective"
    by blast+
  from buf pred obtain this' where
    "EvalTransform negating_objective ?io = Inr ([0xBF000000, 0x3F800000], this')"
    by (cases "EvalTransform negating_objective ?io") auto
  with obj have "EvalTransform negating_objective ?io =
      Inr ([0xBF000000, 0x3F800000], negating_objective)"
    by blast
  with inherit override pred show ?thesis by blast
qed

subsection \<open>UpdateTreeLeaf\<close>

lemma and_then_Inr:
  "and_then r f = Inr y \<longleftrightarrow> (\<exists>x. r = Inr x \<and> f x = Inr y)"
  by (cases r) (simp_all add: and_then_def)

lemma write_leaves_topology:
  "write_leaves recompute position nidx tree = Inr tree' \<Longrightarrow>
   node_count tree' = node_count tree \<and>
   split_thresholds tree' = split_thresholds tree \<and>
   child_pointers tree' = child_pointers tree"
proof (induction recompute position nidx tree arbitrary: tree' rule: write_leaves.induct)
  case (1 recompute position nidx)
  then show ?case by simp
next
  case (2 recompute position nidx c l r rest)
  from "2.prems" obtain rest' where
    rest': "write_leaves recompute position (Suc nidx) rest = Inr rest'"
    and tree': "tree' = Split c l r # rest'"
    by (auto simp add: and_then_Inr)
  from "2.IH" [OF rest'] show ?case
    by (simp add: tree' node_count_def split_thresholds_def child_pointers_def)
next
  case (3 recompute position nidx v rest)
  from "3.prems" obtain v' rest' where
    rest': "write_leaves recompute position (Suc nidx) rest = Inr rest'"
    and tree': "tree' = Leaf v' # rest'"
    by (auto simp add: and_then_Inr split: if_splits)
  have "node_count rest' = node_count rest \<and>
      split_thresholds rest' = split_thresholds rest \<and>
      child_pointers rest' = child_pointers rest"
  proof (cases "assigned position nidx = []")
    case True
    with "3.IH"(1) rest' show ?thesis by blast
  next
    case False
    from "3.prems" False obtain w where "recompute (assigned position nidx) = Inr w"
      by (auto simp add: and_then_Inr)
    with "3.IH"(2) False rest' show ?thesis by blast
  qed
  then show ?case
    by (simp add: tree' node_count_def split_thresholds_def child_pointers_def)
qed

text \<open>
  C3. Whatever the objective, the leaf assignment, the \<open>MetaInfo\<close>, the prediction
  buffer and the tree, a call of \<open>UpdateTreeLeaf\<close> that returns leaves the topology of
  the tree as it was: the node count, the split thresholds and the child pointers are
  the same, so only leaf values can differ. For an objective that inherits the method
  the call always returns, and the tree is entirely unchanged.
\<close>

theorem UpdateTreeLeaf_topology:
  "(\<forall>tree'. UpdateTreeLeaf this position info prediction tree = Inr tree' \<longrightarrow>
      node_count tree' = node_count tree \<and>
      split_thresholds tree' = split_thresholds tree \<and>
      child_pointers tree' = child_pointers tree) \<and>
   (UpdateTreeLeaf_override this = None \<longrightarrow>
      UpdateTreeLeaf this position info prediction tree = Inr tree)"
proof (cases "UpdateTreeLeaf_override this")
  case None
  then show ?thesis
    by (simp add: UpdateTreeLeaf_def ObjFunction_UpdateTreeLeaf_def)
next
  case (Some recompute)
  then have "UpdateTreeLeaf this position info prediction tree =
      write_leaves (recompute (members this) info prediction) position 0 tree"
    by (simp add: UpdateTreeLeaf_def)
  with Some show ?thesis
    using write_leaves_topology by simp
qed

theorem UpdateTreeLeaf_topology_witness:
  "UpdateTreeLeaf_override plain_objective = None \<and>
   UpdateTreeLeaf plain_objective [1, 1] one_column [0, 0] stump = Inr stump \<and>
   UpdateTreeLeaf last_label_objective [1, 1] one_column [0, 0] stump =
     Inr [Split 0x3F000000 1 2, Leaf 0x40000000, Leaf 0xBF800000] \<and>
   node_count [Split 0x3F000000 1 2, Leaf 0x40000000, Leaf 0xBF800000] = node_count stump \<and>
   split_thresholds [Split 0x3F000000 1 2, Leaf 0x40000000, Leaf 0xBF800000] =
     split_thresholds stump \<and>
   child_pointers [Split 0x3F000000 1 2, Leaf 0x40000000, Leaf 0xBF800000] =
     child_pointers stump \<and>
   leaf_values [Split 0x3F000000 1 2, Leaf 0x40000000, Leaf 0xBF800000] \<noteq> leaf_values stump"
proof -
  let ?tree' = "[Split 0x3F000000 1 2, Leaf 0x40000000, Leaf 0xBF800000]"
  have inherit: "UpdateTreeLeaf_override plain_objective = None"
    by (rule plain_objective_inherits)
  from UpdateTreeLeaf_topology [of plain_objective "[1, 1]" one_column "[0, 0]" stump] inherit
  have same: "UpdateTreeLeaf plain_objective [1, 1] one_column [0, 0] stump = Inr stump"
    by blast
  have rows: "assigned [1, 1] 0 = []" "assigned [1, 1] (Suc 0) = [0, 1]"
    "assigned [1, 1] (Suc (Suc 0)) = []"
    by (simp_all add: assigned_def upt_rec)
  have updated: "UpdateTreeLeaf last_label_objective [1, 1] one_column [0, 0] stump = Inr ?tree'"
    by (simp add: UpdateTreeLeaf_def last_label_objective_def plain_objective_def stump_def
        one_column_def rows and_then_def)
  from UpdateTreeLeaf_topology [of last_label_objective "[1, 1]" one_column "[0, 0]" stump]
    updated
  have topology: "node_count ?tree' = node_count stump"
    "split_thresholds ?tree' = split_thresholds stump"
    "child_pointers ?tree' = child_pointers stump"
    by blast+
  have "leaf_values ?tree' \<noteq> leaf_values stump"
    by (simp add: leaf_values_def stump_def)
  with inherit same updated topology show ?thesis
    by blast
qed

subsection \<open>ProbToMargin and PredTransform\<close>




text \<open>
  C5. For an objective that inherits \<open>ProbToMargin\<close>, the call returns every base
  score unchanged.
\<close>

theorem ProbToMargin_default:
  "ProbToMargin_override this = None \<Longrightarrow> ProbToMargin this base_score = Inr base_score"
  by (simp add: ProbToMargin_def ObjFunction_ProbToMargin_def)

theorem ProbToMargin_default_witness:
  "ProbToMargin_override plain_objective = None \<and>
   ProbToMargin plain_objective 0x3F000000 = Inr 0x3F000000"
  using ProbToMargin_default [of plain_objective "0x3F000000"] plain_objective_inherits(3)
  by blast

text \<open>
  C6. For an objective that inherits \<open>PredTransform\<close>, the call leaves every
  predictions buffer unchanged, the empty buffer included, and applying it twice gives
  what applying it once gives.
\<close>

theorem PredTransform_default:
  "PredTransform_override this = None \<Longrightarrow>
   PredTransform this io_preds = Inr io_preds \<and>
   PredTransform this [] = Inr [] \<and>
   and_then (PredTransform this io_preds) (PredTransform this) = PredTransform this io_preds"
  by (simp add: PredTransform_def ObjFunction_PredTransform_def and_then_def)

theorem PredTransform_default_witness:
  "PredTransform_override plain_objective = None \<and>
   PredTransform plain_objective [0x3F000000, 0xFF800000] = Inr [0x3F000000, 0xFF800000] \<and>
   PredTransform plain_objective [] = Inr [] \<and>
   and_then (PredTransform plain_objective [0x3F000000, 0xFF800000])
     (PredTransform plain_objective) = PredTransform plain_objective [0x3F000000, 0xFF800000]"
  using PredTransform_default [of plain_objective "[0x3F000000, 0xFF800000]"]
    plain_objective_inherits(1)
  by blast

section \<open>Properties of the registry\<close>

lemma Find_None_iff: "Find reg n = None \<longleftrightarrow> n \<notin> set (ListNames reg)"
  by (auto simp add: Find_def ListNames_def find_None_iff)

lemma Find_Some_name: "Find reg n = Some e \<Longrightarrow> reg_name e = n"
  by (auto simp add: Find_def find_Some_iff)

lemma Find_append_new:
  "n \<notin> set (ListNames reg) \<Longrightarrow> Find (reg @ [e]) n = (if reg_name e = n then Some e else None)"
  by (induction reg) (auto simp add: Find_def ListNames_def)

lemma example_registry_names: "ListNames example_registry = [''reg:squarederror'']"
  by (simp add: example_registry_def ListNames_def)

lemma example_registry_Find:
  "Find example_registry ''reg:squarederror'' =
     Some \<lparr>reg_name = ''reg:squarederror'', reg_body = (\<lambda>u. plain_objective)\<rparr>"
  by (simp add: example_registry_def Find_def)

lemma ConfigureAt_other:
  assumes "ConfigureAt heap p args = Some (Inr heap')" and "q \<noteq> p"
  shows "heap' ! q = heap ! q"
proof -
  from assms(1) have "p < length heap"
    by (simp add: ConfigureAt_def split: if_splits)
  with assms(1) obtain obj where "heap' = heap[p := obj]"
    by (cases "Configure (heap ! p) args") (auto simp add: ConfigureAt_def and_then_def)
  with assms(2) show ?thesis
    by simp
qed

text \<open>
  C8. \<open>Create\<close> with a name that is not registered fails with the "no such
  objective" error, which carries the name and the list of the registered names. With
  a registered name it returns a handle to a new object built by the registered
  factory and bound to the context: the handle is the address of no earlier object,
  and the earlier objects are untouched. A second call returns a different handle,
  and configuring the object behind either handle leaves the other object as it was.
\<close>

theorem Create_lookup:
  "(n \<notin> set (ListNames reg) \<longrightarrow>
      Create reg n tparam heap = Inl (NoSuchObjective n (ListNames reg))) \<and>
   (n \<in> set (ListNames reg) \<longrightarrow>
      (\<exists>e p heap1 q heap2.
         Find reg n = Some e \<and> reg_name e = n \<and>
         Create reg n tparam heap = Inr (p, heap1) \<and>
         \<not> p < length heap \<and> p < length heap1 \<and> take (length heap) heap1 = heap \<and>
         heap1 ! p = (reg_body e ())\<lparr>ctx := Some tparam\<rparr> \<and>
         Create reg n tparam heap1 = Inr (q, heap2) \<and>
         q \<noteq> p \<and> q < length heap2 \<and> heap2 ! p = heap1 ! p \<and>
         (\<forall>args. ConfigureAt heap2 p args \<noteq> None \<and> ConfigureAt heap2 q args \<noteq> None) \<and>
         (\<forall>args heap3. ConfigureAt heap2 p args = Some (Inr heap3) \<longrightarrow>
            heap3 ! q = heap2 ! q) \<and>
         (\<forall>args heap3. ConfigureAt heap2 q args = Some (Inr heap3) \<longrightarrow>
            heap3 ! p = heap2 ! p)))"
proof (intro conjI impI)
  assume "n \<notin> set (ListNames reg)"
  then have "Find reg n = None"
    by (simp add: Find_None_iff)
  then show "Create reg n tparam heap = Inl (NoSuchObjective n (ListNames reg))"
    by (simp add: Create_def)
next
  assume "n \<in> set (ListNames reg)"
  then obtain e where e: "Find reg n = Some e"
    using Find_None_iff [of reg n] by (cases "Find reg n") auto
  define obj where "obj = (reg_body e ())\<lparr>ctx := Some tparam\<rparr>"
  define p where "p = length heap"
  define heap1 where "heap1 = heap @ [obj]"
  define q where "q = length heap1"
  define heap2 where "heap2 = heap1 @ [obj]"
  have c1: "Create reg n tparam heap = Inr (p, heap1)"
    by (simp add: Create_def e p_def heap1_def obj_def)
  have c2: "Create reg n tparam heap1 = Inr (q, heap2)"
    by (simp add: Create_def e q_def heap2_def obj_def)
  have fresh: "\<not> p < length heap" "p < length heap1" "take (length heap) heap1 = heap"
    "heap1 ! p = (reg_body e ())\<lparr>ctx := Some tparam\<rparr>"
    by (simp_all add: p_def heap1_def obj_def)
  have two: "q \<noteq> p" "q < length heap2" "heap2 ! p = heap1 ! p" "p < length heap2"
    by (simp_all add: p_def q_def heap1_def heap2_def nth_append)
  have defined: "\<forall>args. ConfigureAt heap2 p args \<noteq> None \<and> ConfigureAt heap2 q args \<noteq> None"
    using two by (simp add: ConfigureAt_def)
  have ind1: "\<forall>args heap3. ConfigureAt heap2 p args = Some (Inr heap3) \<longrightarrow>
      heap3 ! q = heap2 ! q"
    using ConfigureAt_other two(1) by blast
  have ind2: "\<forall>args heap3. ConfigureAt heap2 q args = Some (Inr heap3) \<longrightarrow>
      heap3 ! p = heap2 ! p"
    using ConfigureAt_other two(1) by metis
  from e Find_Some_name [OF e] c1 c2 fresh two defined ind1 ind2
  show "\<exists>e p heap1 q heap2.
         Find reg n = Some e \<and> reg_name e = n \<and>
         Create reg n tparam heap = Inr (p, heap1) \<and>
         \<not> p < length heap \<and> p < length heap1 \<and> take (length heap) heap1 = heap \<and>
         heap1 ! p = (reg_body e ())\<lparr>ctx := Some tparam\<rparr> \<and>
         Create reg n tparam heap1 = Inr (q, heap2) \<and>
         q \<noteq> p \<and> q < length heap2 \<and> heap2 ! p = heap1 ! p \<and>
         (\<forall>args. ConfigureAt heap2 p args \<noteq> None \<and> ConfigureAt heap2 q args \<noteq> None) \<and>
         (\<forall>args heap3. ConfigureAt heap2 p args = Some (Inr heap3) \<longrightarrow>
            heap3 ! q = heap2 ! q) \<and>
         (\<forall>args heap3. ConfigureAt heap2 q args = Some (Inr heap3) \<longrightarrow>
            heap3 ! p = heap2 ! p)"
    by (intro exI [of _ e], intro exI [of _ p], intro exI [of _ heap1],
        intro exI [of _ q], intro exI [of _ heap2]) blast
qed

theorem Create_lookup_witness:
  "''rank:unknown'' \<notin> set (ListNames example_registry) \<and>
   Create example_registry ''rank:unknown'' 7 [] =
     Inl (NoSuchObjective ''rank:unknown'' [''reg:squarederror'']) \<and>
   ''reg:squarederror'' \<in> set (ListNames example_registry) \<and>
   Create example_registry ''reg:squarederror'' 7 [] =
     Inr (0, [plain_objective\<lparr>ctx := Some 7\<rparr>]) \<and>
   Create example_registry ''reg:squarederror'' 7 [plain_objective\<lparr>ctx := Some 7\<rparr>] =
     Inr (1, [plain_objective\<lparr>ctx := Some 7\<rparr>, plain_objective\<lparr>ctx := Some 7\<rparr>]) \<and>
   ConfigureAt [plain_objective\<lparr>ctx := Some 7\<rparr>, plain_objective\<lparr>ctx := Some 7\<rparr>] 0
       [(''max_delta_step'', ''1'')] =
     Some (Inr [plain_objective\<lparr>ctx := Some 7, members := [(''max_delta_step'', ''1'')]\<rparr>,
                plain_objective\<lparr>ctx := Some 7\<rparr>]) \<and>
   [plain_objective\<lparr>ctx := Some 7, members := [(''max_delta_step'', ''1'')]\<rparr>,
    plain_objective\<lparr>ctx := Some 7\<rparr>] ! 1 =
   [plain_objective\<lparr>ctx := Some 7\<rparr>, plain_objective\<lparr>ctx := Some 7\<rparr>] ! 1"
proof -
  let ?obj = "plain_objective\<lparr>ctx := Some 7\<rparr>"
  let ?args = "[(''max_delta_step'', ''1'')]"
  let ?heap3 = "[plain_objective\<lparr>ctx := Some 7, members := ?args\<rparr>, ?obj]"
  have unknown: "''rank:unknown'' \<notin> set (ListNames example_registry)"
    and known: "''reg:squarederror'' \<in> set (ListNames example_registry)"
    by (simp_all add: example_registry_names)
  from Create_lookup [of "''rank:unknown''" example_registry 7 "[]"] unknown
  have "Create example_registry ''rank:unknown'' 7 [] =
      Inl (NoSuchObjective ''rank:unknown'' (ListNames example_registry))"
    by blast
  then have err: "Create example_registry ''rank:unknown'' 7 [] =
      Inl (NoSuchObjective ''rank:unknown'' [''reg:squarederror''])"
    by (simp add: example_registry_names)
  have c1: "Create example_registry ''reg:squarederror'' 7 [] = Inr (0, [?obj])"
    by (simp add: Create_def example_registry_Find)
  have c2: "Create example_registry ''reg:squarederror'' 7 [?obj] = Inr (1, [?obj, ?obj])"
    by (simp add: Create_def example_registry_Find)
  have conf: "ConfigureAt [?obj, ?obj] 0 ?args = Some (Inr ?heap3)"
    by (simp add: ConfigureAt_def Configure_def and_then_def plain_objective_def)
  from Create_lookup [of "''reg:squarederror''" example_registry 7 "[]"] known
  obtain p heap1 q heap2 where
    "Create example_registry ''reg:squarederror'' 7 [] = Inr (p, heap1)"
    "Create example_registry ''reg:squarederror'' 7 heap1 = Inr (q, heap2)"
    "\<forall>args heap3. ConfigureAt heap2 p args = Some (Inr heap3) \<longrightarrow> heap3 ! q = heap2 ! q"
    by blast
  with c1 c2 have "\<forall>args heap3. ConfigureAt [?obj, ?obj] 0 args = Some (Inr heap3) \<longrightarrow>
      heap3 ! 1 = [?obj, ?obj] ! 1"
    by simp
  with conf have "?heap3 ! 1 = [?obj, ?obj] ! 1"
    by blast
  with unknown err known c1 c2 conf show ?thesis
    by blast
qed

text \<open>
  C9. \<open>Register\<close> with a name that the registry already contains fails with an
  "already registered" error: the failure is the result of the registration itself.
  So after a successful registration of a name, that name looks up the factory it was
  registered with, and registering the name again fails instead of replacing it.
\<close>

theorem Register_duplicate:
  "(n \<in> set (ListNames reg) \<longrightarrow> Register reg n factory = Inl (AlreadyRegistered n)) \<and>
   (\<forall>reg'. Register reg n factory = Inr reg' \<longrightarrow>
      Find reg' n = Some \<lparr>reg_name = n, reg_body = factory\<rparr> \<and>
      Register reg' n factory' = Inl (AlreadyRegistered n))"
proof (intro conjI impI allI)
  assume "n \<in> set (ListNames reg)"
  then show "Register reg n factory = Inl (AlreadyRegistered n)"
    by (simp add: Register_def)
next
  fix reg'
  assume ok: "Register reg n factory = Inr reg'"
  then have new: "n \<notin> set (ListNames reg)"
    and reg': "reg' = reg @ [\<lparr>reg_name = n, reg_body = factory\<rparr>]"
    by (auto simp add: Register_def split: if_splits)
  from new show "Find reg' n = Some \<lparr>reg_name = n, reg_body = factory\<rparr>"
    by (simp add: reg' Find_append_new)
  show "Register reg' n factory' = Inl (AlreadyRegistered n)"
    by (simp add: Register_def reg' ListNames_def)
qed

theorem Register_duplicate_witness:
  "''reg:squarederror'' \<in> set (ListNames example_registry) \<and>
   Register example_registry ''reg:squarederror'' (\<lambda>u. negating_objective) =
     Inl (AlreadyRegistered ''reg:squarederror'') \<and>
   Register [] ''reg:squarederror'' (\<lambda>u. plain_objective) = Inr example_registry \<and>
   Find example_registry ''reg:squarederror'' =
     Some \<lparr>reg_name = ''reg:squarederror'', reg_body = (\<lambda>u. plain_objective)\<rparr> \<and>
   Register example_registry ''reg:squarederror'' (\<lambda>u. plain_objective) =
     Inl (AlreadyRegistered ''reg:squarederror'')"
proof -
  have known: "''reg:squarederror'' \<in> set (ListNames example_registry)"
    by (simp add: example_registry_names)
  have first: "Register [] ''reg:squarederror'' (\<lambda>u. plain_objective) = Inr example_registry"
    by (simp add: Register_def ListNames_def example_registry_def)
  from Register_duplicate
    [of "''reg:squarederror''" example_registry "\<lambda>u. negating_objective"] known
  have dup: "Register example_registry ''reg:squarederror'' (\<lambda>u. negating_objective) =
      Inl (AlreadyRegistered ''reg:squarederror'')"
    by blast
  from Register_duplicate
    [of "''reg:squarederror''" "[]" "\<lambda>u. plain_objective" "\<lambda>u. plain_objective"] first
  have "Find example_registry ''reg:squarederror'' =
      Some \<lparr>reg_name = ''reg:squarederror'', reg_body = (\<lambda>u. plain_objective)\<rparr>"
    and "Register example_registry ''reg:squarederror'' (\<lambda>u. plain_objective) =
      Inl (AlreadyRegistered ''reg:squarederror'')"
    by blast+
  with known first dup show ?thesis
    by blast
qed

end
